theory Spec2Isabelle
  imports Main "HOL-Library.Sublist"
begin

section \<open>Python values, exceptions and external calls\<close>

text \<open>
  The module \<open>tools.py\<close> keeps one process-wide slot (three module globals) and exposes
  three entry points that read and write it: \<open>reset_execution_agent\<close>,
  \<open>discover_and_create_agent\<close> and \<open>call_execution_agent\<close>. Everything else is a call
  into a library: the credential chain, the HTTP search request, the \<open>APIHubToolset\<close>
  constructor, \<open>get_tools\<close>, and the runner that drives the delegate.

  Python values that cross these boundaries (decoded JSON, result dicts, attribute values)
  are values of \<open>pyval\<close>. A dict is an association list in insertion order. JSON numbers
  are restricted to integers.
\<close>

datatype pyval =
    PNone
  | PBool bool
  | PInt int
  | PStr string
  | PList "pyval list"
  | PDict "(string \<times> pyval) list"

type_synonym pydict = "(string \<times> pyval) list"

text \<open>Python truthiness, as used by \<open>if x:\<close> and \<open>if not x:\<close>.\<close>

fun truthy :: "pyval \<Rightarrow> bool" where
  "truthy PNone = False"
| "truthy (PBool b) = b"
| "truthy (PInt n) = (n \<noteq> 0)"
| "truthy (PStr s) = (s \<noteq> [])"
| "truthy (PList xs) = (xs \<noteq> [])"
| "truthy (PDict kvs) = (kvs \<noteq> [])"

fun type_name :: "pyval \<Rightarrow> string" where
  "type_name PNone = ''NoneType''"
| "type_name (PBool b) = ''bool''"
| "type_name (PInt n) = ''int''"
| "type_name (PStr s) = ''str''"
| "type_name (PList xs) = ''list''"
| "type_name (PDict kvs) = ''dict''"

text \<open>
  An exception is its class and its message (\<open>str(e)\<close>). Only the class
  \<open>RequestException\<close> is caught selectively (in \<open>search_api_hub\<close>); the handlers
  \<open>except Exception\<close> catch every class listed here.
\<close>

datatype exn_class = RequestException | AttributeError | KeyError | TypeError | OtherException

datatype exn = Exn exn_class string

fun class_of :: "exn \<Rightarrow> exn_class" where
  "class_of (Exn c m) = c"

fun str_exn :: "exn \<Rightarrow> string" where
  "str_exn (Exn c m) = m"

subsection \<open>The objects of the agent library\<close>

text \<open>\<open>AuthCredential(auth_type=AuthCredentialTypes.API_KEY, api_key=...)\<close>.\<close>

datatype auth_credential_type = API_KEY

record auth_credential =
  auth_type :: auth_credential_type
  api_key :: string

text \<open>
  A tool as enumerated by the toolset. \<open>auth_scheme\<close> is \<open>None\<close> when the object has no
  such attribute (\<open>hasattr\<close> is false) and \<open>Some v\<close> when the attribute holds \<open>v\<close>.
  \<open>tool_auth_credential\<close> is the field that \<open>configure_auth_credential\<close> assigns.
\<close>

record rest_api_tool =
  tool_name :: string
  auth_scheme :: "pyval option"
  tool_auth_credential :: "auth_credential option"

text \<open>
  The toolset object: the constructor's arguments, and the tool objects it owns. The list
  returned by \<open>get_tools\<close> holds the toolset's own tool objects, so configuring a credential
  on an enumerated tool changes the tool inside the toolset; \<open>ts_tools\<close> carries them.
\<close>

record apihub_toolset =
  ts_name :: string
  ts_description :: string
  ts_access_token :: string
  ts_apihub_resource_name :: pyval
  ts_tools :: "rest_api_tool list"

record llm_agent =
  agent_model :: string
  agent_name :: string
  agent_description :: string
  agent_instruction :: string
  agent_tools :: "apihub_toolset list"

datatype agent_tool = AgentTool llm_agent

text \<open>
  An event of the runner: \<open>ev_content\<close> is \<open>None\<close> when the event has no content (or the
  attribute is missing); a content carries \<open>parts\<close>, itself optional in the library
  (\<open>None\<close> is not iterable); a part carries an optional text.
\<close>

record part =
  part_text :: "string option"

record content =
  content_parts :: "part list option"

record event =
  ev_content :: "content option"

subsection \<open>The environment: what the external collaborators answer\<close>

text \<open>
  One \<open>env\<close> fixes the configuration and the outcome of every library call made during one
  call of an entry point:
  \<^item> \<open>getenv\<close>: \<open>os.getenv\<close>;
  \<^item> \<open>credentials_token\<close>: building credentials (from the service-account key when given,
    from the default chain otherwise), refreshing them and reading the token;
  \<^item> \<open>requests_post\<close>: \<open>requests.post\<close>, \<open>raise_for_status\<close> and \<open>response.json()\<close>;
  \<^item> \<open>toolset_init\<close>: the \<open>APIHubToolset\<close> constructor (\<open>Some e\<close>: it raises \<open>e\<close>);
  \<^item> \<open>toolset_get_tools\<close>: \<open>toolset.get_tools()\<close>;
  \<^item> \<open>runner_setup\<close>: the imports, the session service, the runner and the session;
  \<^item> \<open>run_async\<close>: the events the runner yields, and the exception that ends the
    iteration, if any.
  The constructors \<open>AuthCredential\<close>, \<open>LlmAgent\<close> and \<open>AgentTool\<close>, and
  \<open>configure_auth_credential\<close>, only build or assign data and are modelled as total.
\<close>

record env =
  getenv :: "string \<Rightarrow> string option"
  credentials_token :: "string option \<Rightarrow> exn + string"
  requests_post :: "string \<Rightarrow> pydict \<Rightarrow> pydict \<Rightarrow> exn + pyval"
  toolset_init :: "apihub_toolset \<Rightarrow> exn option"
  toolset_get_tools :: "apihub_toolset \<Rightarrow> exn + rest_api_tool list"
  runner_setup :: "llm_agent \<Rightarrow> exn option"
  run_async :: "llm_agent \<Rightarrow> string \<Rightarrow> event list \<times> exn option"

text \<open>The trace of external calls an entry point performs, in order.\<close>

datatype ext_call =
    CredentialsRefresh
  | HttpPost string
  | ToolsetInit pyval
  | GetTools pyval
  | RunnerSetup llm_agent
  | RunAsync llm_agent string

section \<open>Configuration and credentials\<close>

definition getenv_default :: "env \<Rightarrow> string \<Rightarrow> string \<Rightarrow> string" where
  "getenv_default e k d = (case getenv e k of None \<Rightarrow> d | Some v \<Rightarrow> v)"

definition get_apihub_access_token :: "env \<Rightarrow> string \<times> ext_call list" where
  "get_apihub_access_token e =
     (let sa_json = getenv e ''APIHUB_SA_KEY_JSON'';
          key = (case sa_json of None \<Rightarrow> None | Some j \<Rightarrow> if j \<noteq> [] then Some j else None)
      in case credentials_token e key of
           Inr token \<Rightarrow> (token, [CredentialsRefresh])
         | Inl ex \<Rightarrow> (getenv_default e ''APIHUB_ACCESS_TOKEN'' [], [CredentialsRefresh]))"

definition get_apihub_search_url :: "env \<Rightarrow> string" where
  "get_apihub_search_url e = getenv_default e ''APIHUB_SEARCH_URL'' []"

definition get_apikey_credential :: "env \<Rightarrow> string" where
  "get_apikey_credential e = getenv_default e ''APIKEY_CREDENTIAL'' []"

definition get_auth_credential :: "env \<Rightarrow> auth_credential option" where
  "get_auth_credential e =
     (let k = get_apikey_credential e
      in if k \<noteq> [] then Some \<lparr>auth_type = API_KEY, api_key = k\<rparr> else None)"

section \<open>The slot and its reset\<close>

record slot =
  execution_agent :: "llm_agent option"
  execution_agent_tool :: "agent_tool option"
  current_tools :: "string list"

definition empty_slot :: slot where
  "empty_slot = \<lparr>execution_agent = None, execution_agent_tool = None, current_tools = []\<rparr>"

definition py_names :: "string list \<Rightarrow> pyval" where
  "py_names ns = PList (map PStr ns)"

definition reset_execution_agent :: "slot \<Rightarrow> pydict \<times> slot" where
  "reset_execution_agent s =
     (let old_tools = current_tools s;
          s1 = s\<lparr>execution_agent := None\<rparr>;
          s2 = s1\<lparr>execution_agent_tool := None\<rparr>;
          s3 = s2\<lparr>current_tools := []\<rparr>
      in ([(''success'', PBool True),
           (''message'', PStr ''Execution agent destroyed. Call discover_and_create_agent with a new query.''),
           (''previous_tools'', py_names old_tools)], s3))"

section \<open>Capability search\<close>

definition quoted :: "string \<Rightarrow> string" where
  "quoted s = [CHR 0x27] @ s @ [CHR 0x27]"

text \<open>\<open>v.get(k, d)\<close>: defined on dicts only; any other value has no attribute \<open>get\<close>.\<close>

definition py_get :: "pyval \<Rightarrow> string \<Rightarrow> pyval \<Rightarrow> exn + pyval" where
  "py_get v k d =
     (case v of
        PDict kvs \<Rightarrow> Inr (case map_of kvs k of None \<Rightarrow> d | Some x \<Rightarrow> x)
      | _ \<Rightarrow> Inl (Exn AttributeError (quoted (type_name v) @ '' object has no attribute '' @ quoted ''get'')))"

text \<open>\<open>v[0]\<close>: the first element of a list, the first character of a string, a \<open>KeyError\<close>
  on a dict decoded from JSON (its keys are strings), a \<open>TypeError\<close> otherwise.\<close>

definition py_index0 :: "pyval \<Rightarrow> exn + pyval" where
  "py_index0 v =
     (case v of
        PList xs \<Rightarrow> (case xs of [] \<Rightarrow> Inl (Exn OtherException ''list index out of range'') | x # _ \<Rightarrow> Inr x)
      | PStr cs \<Rightarrow> (case cs of [] \<Rightarrow> Inl (Exn OtherException ''string index out of range'') | c # _ \<Rightarrow> Inr (PStr [c]))
      | PDict kvs \<Rightarrow> Inl (Exn KeyError ''0'')
      | _ \<Rightarrow> Inl (Exn TypeError (quoted (type_name v) @ '' object is not subscriptable'')))"

text \<open>The part of \<open>search_api_hub\<close> that reads the decoded response (lines 150 to 164).\<close>

definition search_response_spec :: "pyval \<Rightarrow> exn + pyval" where
  "search_response_spec data =
     (case py_get data ''searchResults'' (PList []) of
        Inl ex \<Rightarrow> Inl ex
      | Inr search_results \<Rightarrow>
          if \<not> truthy search_results then Inr PNone
          else (case py_index0 search_results of
              Inl ex \<Rightarrow> Inl ex
            | Inr first_result \<Rightarrow>
               (case py_get first_result ''resource'' (PDict []) of
                  Inl ex \<Rightarrow> Inl ex
                | Inr resource \<Rightarrow>
                   (case py_get resource ''operation'' (PDict []) of
                      Inl ex \<Rightarrow> Inl ex
                    | Inr operation \<Rightarrow>
                       (case py_get operation ''spec'' PNone of
                          Inl ex \<Rightarrow> Inl ex
                        | Inr spec \<Rightarrow> if truthy spec then Inr spec else Inr PNone)))))"

definition search_headers :: "string \<Rightarrow> pydict" where
  "search_headers access_token =
     [(''Authorization'', PStr (''Bearer '' @ access_token)),
      (''Content-Type'', PStr ''application/json'')]"

definition search_payload :: "string \<Rightarrow> pydict" where
  "search_payload query =
     [(''query'', PStr query),
      (''filter'', PStr ''resource_type = ApiOperation''),
      (''pageSize'', PInt 1)]"

text \<open>
  \<open>search_api_hub\<close> returns the spec reference, or \<open>None\<close> (here \<open>PNone\<close>). Only a
  \<open>RequestException\<close> is caught; any other exception leaves the function.
\<close>

definition search_api_hub :: "env \<Rightarrow> string \<Rightarrow> (exn + pyval) \<times> ext_call list" where
  "search_api_hub e query =
     (let search_url = get_apihub_search_url e;
          (access_token, tr) = get_apihub_access_token e
      in if search_url = [] then (Inr PNone, tr)
         else if access_token = [] then (Inr PNone, tr)
         else (case requests_post e search_url (search_headers access_token) (search_payload query) of
                 Inl ex \<Rightarrow>
                   (if class_of ex = RequestException then Inr PNone else Inl ex,
                    tr @ [HttpPost search_url])
               | Inr data \<Rightarrow> (search_response_spec data, tr @ [HttpPost search_url])))"

section \<open>Materialization and the delegate\<close>

definition create_toolset_from_apihub ::
    "env \<Rightarrow> pyval \<Rightarrow> string \<Rightarrow> string \<Rightarrow> apihub_toolset option \<times> ext_call list" where
  "create_toolset_from_apihub e apihub_resource_name name description =
     (let (token, tr) = get_apihub_access_token e;
          toolset = \<lparr>ts_name = name, ts_description = description, ts_access_token = token,
                     ts_apihub_resource_name = apihub_resource_name, ts_tools = []\<rparr>
      in case toolset_init e toolset of
           None \<Rightarrow> (Some toolset, tr @ [ToolsetInit apihub_resource_name])
         | Some ex \<Rightarrow> (None, tr @ [ToolsetInit apihub_resource_name]))"

text \<open>\<open>hasattr(tool, 'auth_scheme') and tool.auth_scheme\<close>.\<close>

definition needs_auth :: "rest_api_tool \<Rightarrow> bool" where
  "needs_auth t = (case auth_scheme t of None \<Rightarrow> False | Some v \<Rightarrow> truthy v)"

definition configure_auth_credential :: "auth_credential \<Rightarrow> rest_api_tool \<Rightarrow> rest_api_tool" where
  "configure_auth_credential c t = t\<lparr>tool_auth_credential := Some c\<rparr>"

text \<open>Lines 226 to 230: the loop over the enumerated tools.\<close>

definition configure_tools :: "auth_credential option \<Rightarrow> rest_api_tool list \<Rightarrow> rest_api_tool list" where
  "configure_tools auth_cred tools =
     (case auth_cred of
        None \<Rightarrow> tools
      | Some c \<Rightarrow> map (\<lambda>t. if needs_auth t then configure_auth_credential c t else t) tools)"

text \<open>\<open>sep.join(xs)\<close> and the decimal form of a length, as the f-strings need them.\<close>

fun py_join :: "string \<Rightarrow> string list \<Rightarrow> string" where
  "py_join sep [] = []"
| "py_join sep [x] = x"
| "py_join sep (x # y # ys) = x @ sep @ py_join sep (y # ys)"

definition digit_char :: "nat \<Rightarrow> char" where
  "digit_char d = char_of (48 + d)"

function str_of_nat :: "nat \<Rightarrow> string" where
  "str_of_nat n = (if n < 10 then [digit_char n] else str_of_nat (n div 10) @ [digit_char (n mod 10)])"
  by pat_completeness auto
termination
  by (relation "measure id") auto

declare str_of_nat.simps [simp del]

definition nl :: string where
  "nl = [CHR 0x0A]"

definition execution_instruction :: "string list \<Rightarrow> string" where
  "execution_instruction tool_names =
     ''You are an API Execution Agent with access to real API tools.'' @ nl @ nl @
     ''You have ONLY these tools available:'' @ nl @
     py_join nl (map (\<lambda>name. ''- '' @ name) tool_names) @ nl @ nl @
     ''IMPORTANT: If you cannot fulfill the request with your available tools, '' @ nl @
     ''respond with EXACTLY: '' @ [CHR 0x22] @
       ''TOOL_NOT_FOUND: <description of what tool is needed>'' @ [CHR 0x22] @ nl @ nl @
     ''When you CAN fulfill the request:'' @ nl @
     ''1. Identify which tool to use'' @ nl @
     ''2. Call the tool with the correct parameters'' @ nl @
     ''3. Return the result'' @ nl @ nl @
     ''Be precise with parameter names - use exactly what the tool expects.'' @ nl"

text \<open>Lines 235 to 255: the new \<open>LlmAgent\<close>.\<close>

definition new_execution_agent :: "string \<Rightarrow> apihub_toolset \<Rightarrow> string list \<Rightarrow> llm_agent" where
  "new_execution_agent query toolset tool_names =
     \<lparr>agent_model = ''gemini-2.0-flash'',
      agent_name = ''api_execution_agent'',
      agent_description = ''Executes API calls for: '' @ query,
      agent_instruction = execution_instruction tool_names,
      agent_tools = [toolset]\<rparr>"

definition no_api_found :: "string \<Rightarrow> pydict" where
  "no_api_found query =
     [(''success'', PBool False),
      (''message'', PStr (''No API found matching: '' @ query))]"

definition spec_malformed :: "string \<Rightarrow> pyval \<Rightarrow> pydict" where
  "spec_malformed query apihub_resource_name =
     [(''success'', PBool False),
      (''message'', PStr (''Failed to parse API spec for: '' @ query @ ''. The spec may be malformed.'')),
      (''spec'', apihub_resource_name)]"

definition agent_created :: "string list \<Rightarrow> pydict" where
  "agent_created tool_names =
     [(''success'', PBool True),
      (''message'', PStr (''Created execution agent with '' @ str_of_nat (length tool_names) @ '' tools'')),
      (''tools'', py_names tool_names),
      (''instruction'', PStr (''Now use '' @ quoted ''call_execution_agent'' @ '' to execute API calls''))]"

text \<open>
  \<open>discover_and_create_agent\<close>: the result (or the exception that leaves the function),
  the slot afterwards, and the external calls made.
\<close>

definition discover_and_create_agent ::
    "env \<Rightarrow> string \<Rightarrow> slot \<Rightarrow> (exn + pydict) \<times> slot \<times> ext_call list" where
  "discover_and_create_agent e query s =
     (let s0 = (if execution_agent s \<noteq> None
                then s\<lparr>execution_agent := None, execution_agent_tool := None, current_tools := []\<rparr>
                else s);
          (found, tr1) = search_api_hub e query
      in case found of
           Inl ex \<Rightarrow> (Inl ex, s0, tr1)
         | Inr apihub_resource_name \<Rightarrow>
             if \<not> truthy apihub_resource_name then (Inr (no_api_found query), s0, tr1)
             else
               (let (made, tr2) = create_toolset_from_apihub e apihub_resource_name
                                    ''discovered-api'' (''API discovered for: '' @ query)
                in case made of
                     None \<Rightarrow> (Inr (spec_malformed query apihub_resource_name), s0, tr1 @ tr2)
                   | Some toolset \<Rightarrow>
                      (case toolset_get_tools e toolset of
                         Inl ex \<Rightarrow> (Inl ex, s0, tr1 @ tr2 @ [GetTools apihub_resource_name])
                       | Inr tools \<Rightarrow>
                          (let tool_names = map tool_name tools;
                               s1 = s0\<lparr>current_tools := tool_names\<rparr>;
                               auth_cred = get_auth_credential e;
                               toolset' = toolset\<lparr>ts_tools := configure_tools auth_cred tools\<rparr>;
                               agent = new_execution_agent query toolset' tool_names;
                               s2 = s1\<lparr>execution_agent := Some agent\<rparr>;
                               s3 = s2\<lparr>execution_agent_tool := Some (AgentTool agent)\<rparr>
                           in (Inr (agent_created tool_names), s3,
                               tr1 @ tr2 @ [GetTools apihub_resource_name])))))"

section \<open>Execution\<close>

text \<open>The inner loop (lines 323 to 325): the last non-empty text of the parts wins.\<close>

fun collect_parts :: "string option \<Rightarrow> part list \<Rightarrow> string option" where
  "collect_parts final_response [] = final_response"
| "collect_parts final_response (p # ps) =
     collect_parts (case part_text p of
                      None \<Rightarrow> final_response
                    | Some t \<Rightarrow> if t \<noteq> [] then Some t else final_response) ps"

text \<open>The outer loop (lines 316 to 325). Iterating over \<open>parts\<close> that is \<open>None\<close> raises.\<close>

fun collect_events :: "string option \<Rightarrow> event list \<Rightarrow> exn + string option" where
  "collect_events final_response [] = Inr final_response"
| "collect_events final_response (ev # evs) =
     (case ev_content ev of
        None \<Rightarrow> collect_events final_response evs
      | Some c \<Rightarrow>
         (case content_parts c of
            None \<Rightarrow> Inl (Exn TypeError (quoted ''NoneType'' @ '' object is not iterable''))
          | Some ps \<Rightarrow> collect_events (collect_parts final_response ps) evs))"

text \<open>Python's \<open>sub in s\<close> on strings: \<open>sub\<close> occurs at some position of \<open>s\<close>.\<close>

fun str_contains :: "string \<Rightarrow> string \<Rightarrow> bool" where
  "str_contains sub [] = (sub = [])"
| "str_contains sub (c # cs) = (prefix sub (c # cs) \<or> str_contains sub cs)"

definition no_agent_error :: pydict where
  "no_agent_error = [(''error'', PStr ''No execution agent created. Call discover_and_create_agent first.'')]"

definition execution_failed :: "exn \<Rightarrow> pydict" where
  "execution_failed ex = [(''error'', PStr (''Execution agent failed: '' @ str_exn ex))]"

definition tool_not_found :: "string \<Rightarrow> string list \<Rightarrow> pydict" where
  "tool_not_found final_response tools =
     [(''success'', PBool False),
      (''tool_not_found'', PBool True),
      (''message'', PStr final_response),
      (''current_tools'', py_names tools),
      (''instruction'', PStr ''Call discover_and_create_agent with a DIFFERENT query.'')]"

definition py_opt_str :: "string option \<Rightarrow> pyval" where
  "py_opt_str r = (case r of None \<Rightarrow> PNone | Some t \<Rightarrow> PStr t)"

definition execution_result :: "string option \<Rightarrow> pydict" where
  "execution_result final_response = [(''success'', PBool True), (''result'', py_opt_str final_response)]"

text \<open>Lines 329 to 339: what is returned once the run has completed.\<close>

definition classify_response :: "string option \<Rightarrow> string list \<Rightarrow> pydict" where
  "classify_response final_response tools =
     (case final_response of
        None \<Rightarrow> execution_result final_response
      | Some t \<Rightarrow>
          if t \<noteq> [] \<and> str_contains ''TOOL_NOT_FOUND'' t then tool_not_found t tools
          else execution_result final_response)"

text \<open>
  \<open>call_execution_agent\<close> reads the slot and never assigns it. The result is a sum like
  that of \<open>discover_and_create_agent\<close>, so that both entry points can be compared.
\<close>

definition call_execution_agent ::
    "env \<Rightarrow> string \<Rightarrow> slot \<Rightarrow> (exn + pydict) \<times> ext_call list" where
  "call_execution_agent e request s =
     (case execution_agent s of
        None \<Rightarrow> (Inr no_agent_error, [])
      | Some agent \<Rightarrow>
         (case runner_setup e agent of
            Some ex \<Rightarrow> (Inr (execution_failed ex), [RunnerSetup agent])
          | None \<Rightarrow>
             (let (events, raised) = run_async e agent request;
                  tr = [RunnerSetup agent, RunAsync agent request]
              in case collect_events None events of
                   Inl ex \<Rightarrow> (Inr (execution_failed ex), tr)
                 | Inr final_response \<Rightarrow>
                    (case raised of
                       Some ex \<Rightarrow> (Inr (execution_failed ex), tr)
                     | None \<Rightarrow> (Inr (classify_response final_response (current_tools s)), tr)))))"

section \<open>Reachable slots\<close>

text \<open>
  The three globals are assigned by \<open>reset_execution_agent\<close> and
  \<open>discover_and_create_agent\<close> only. A slot is reachable when some sequence of their calls,
  whatever the collaborators answer and whether a call returns or raises, leads to it from
  the module's initial values.
\<close>

inductive reachable :: "slot \<Rightarrow> bool" where
  reachable_init: "reachable empty_slot"
| reachable_reset: "reachable s \<Longrightarrow> reachable (snd (reset_execution_agent s))"
| reachable_discover: "reachable s \<Longrightarrow> reachable (fst (snd (discover_and_create_agent e query s)))"

definition result_field :: "exn + pydict \<Rightarrow> string \<Rightarrow> pyval option" where
  "result_field r k = (case r of Inl ex \<Rightarrow> None | Inr d \<Rightarrow> map_of d k)"

section \<open>Concrete environments\<close>

text \<open>
  A configured deployment in which everything works: the search finds the customer API,
  its toolset has two operations, of which the first declares an auth scheme, and the
  delegate answers that it lacks a tool.
\<close>

definition customer_spec :: pyval where
  "customer_spec = PStr ''projects/p/locations/l/apis/customers/versions/v1/specs/openapi''"

definition customer_search_response :: pyval where
  "customer_search_response =
     PDict [(''searchResults'',
             PList [PDict [(''resource'',
                            PDict [(''operation'', PDict [(''spec'', customer_spec)])])]])]"

definition customer_tools :: "rest_api_tool list" where
  "customer_tools =
     [\<lparr>tool_name = ''get_customer_by_id'', auth_scheme = Some (PStr ''apiKey''),
       tool_auth_credential = None\<rparr>,
      \<lparr>tool_name = ''list_customers'', auth_scheme = Some PNone,
       tool_auth_credential = None\<rparr>]"

definition text_event :: "string \<Rightarrow> event" where
  "text_event t = \<lparr>ev_content = Some \<lparr>content_parts = Some [\<lparr>part_text = Some t\<rparr>]\<rparr>\<rparr>"

definition example_env :: env where
  "example_env =
     \<lparr>getenv = [''APIHUB_SEARCH_URL'' \<mapsto> ''https://hub.example/search'',
                 ''APIKEY_CREDENTIAL'' \<mapsto> ''k-123''],
      credentials_token = (\<lambda>key. Inr ''token-1''),
      requests_post = (\<lambda>url headers payload. Inr customer_search_response),
      toolset_init = (\<lambda>toolset. None),
      toolset_get_tools = (\<lambda>toolset. Inr customer_tools),
      runner_setup = (\<lambda>agent. None),
      run_async = (\<lambda>agent request.
         ([text_event ''Sorry, TOOL_NOT_FOUND: need a shipping API''], None))\<rparr>"

text \<open>The same deployment when the catalog has no match.\<close>

definition no_match_env :: env where
  "no_match_env =
     example_env\<lparr>requests_post := (\<lambda>url headers payload. Inr (PDict [(''searchResults'', PList [])]))\<rparr>"

text \<open>When the search request fails in the transport.\<close>

definition transport_down_env :: env where
  "transport_down_env =
     example_env\<lparr>requests_post := (\<lambda>url headers payload. Inl (Exn RequestException ''connection refused''))\<rparr>"

text \<open>When the search endpoint is not configured, and when no token can be obtained.\<close>

definition no_url_env :: env where
  "no_url_env = example_env\<lparr>getenv := [''APIKEY_CREDENTIAL'' \<mapsto> ''k-123'']\<rparr>"

definition no_token_env :: env where
  "no_token_env = example_env\<lparr>credentials_token := (\<lambda>key. Inl (Exn OtherException ''no credentials''))\<rparr>"

text \<open>When the toolset constructor rejects the spec.\<close>

definition bad_spec_env :: env where
  "bad_spec_env = example_env\<lparr>toolset_init := (\<lambda>toolset. Some (Exn OtherException ''invalid OpenAPI document''))\<rparr>"

text \<open>When the toolset is constructed and enumerating its tools raises.\<close>

definition enumeration_fails_env :: env where
  "enumeration_fails_env =
     example_env\<lparr>toolset_get_tools := (\<lambda>toolset. Inl (Exn OtherException ''spec could not be loaded''))\<rparr>"

text \<open>An order API found by a later query, with no static API key configured.\<close>

definition order_tools :: "rest_api_tool list" where
  "order_tools =
     [\<lparr>tool_name = ''get_order_by_id'', auth_scheme = Some (PStr ''apiKey''),
       tool_auth_credential = None\<rparr>]"

definition order_env :: env where
  "order_env =
     example_env\<lparr>getenv := [''APIHUB_SEARCH_URL'' \<mapsto> ''https://hub.example/search''],
                 toolset_get_tools := (\<lambda>toolset. Inr order_tools)\<rparr>"

text \<open>A delegate whose run completes without any text.\<close>

definition silent_env :: env where
  "silent_env =
     example_env\<lparr>run_async := (\<lambda>agent request.
        ([\<lparr>ev_content = None\<rparr>,
          \<lparr>ev_content = Some \<lparr>content_parts = Some [\<lparr>part_text = None\<rparr>, \<lparr>part_text = Some []\<rparr>]\<rparr>\<rparr>],
         None))\<rparr>"

text \<open>When the search answers with a result whose \<open>resource\<close> is \<open>null\<close>.\<close>

definition null_resource_env :: env where
  "null_resource_env =
     example_env\<lparr>requests_post := (\<lambda>url headers payload.
        Inr (PDict [(''searchResults'', PList [PDict [(''resource'', PNone)]])]))\<rparr>"

text \<open>The slot after a successful discovery in the working deployment.\<close>

definition customer_slot :: slot where
  "customer_slot = fst (snd (discover_and_create_agent example_env ''customer management'' empty_slot))"

section \<open>Supporting lemmas\<close>

lemma str_contains_sublist: "str_contains sub s \<longleftrightarrow> sublist sub s"
  by (induction s) (simp_all add: sublist_Cons_right)

lemma str_contains_iff: "str_contains sub s \<longleftrightarrow> (\<exists>ps ss. s = ps @ sub @ ss)"
  by (simp add: str_contains_sublist sublist_def)

lemma reset_slot: "snd (reset_execution_agent s) = empty_slot"
  by (simp add: reset_execution_agent_def empty_slot_def Let_def)

lemma customer_slot_eq:
  "customer_slot =
    (let toolset = \<lparr>ts_name = ''discovered-api'', ts_description = ''API discovered for: customer management'',
                     ts_access_token = ''token-1'', ts_apihub_resource_name = customer_spec,
                     ts_tools = configure_tools (Some \<lparr>auth_type = API_KEY, api_key = ''k-123''\<rparr>) customer_tools\<rparr>;
         agent = new_execution_agent ''customer management'' toolset (map tool_name customer_tools)
     in \<lparr>execution_agent = Some agent, execution_agent_tool = Some (AgentTool agent),
         current_tools = map tool_name customer_tools\<rparr>)"
  by (simp add: customer_slot_def discover_and_create_agent_def search_api_hub_def
      get_apihub_search_url_def getenv_default_def example_env_def get_apihub_access_token_def
      search_response_spec_def customer_search_response_def py_get_def py_index0_def
      customer_spec_def create_toolset_from_apihub_def empty_slot_def Let_def
      get_auth_credential_def get_apikey_credential_def)

text \<open>The control flow of discovery, with the pairs projected.\<close>

lemma discover_unfold:
  "discover_and_create_agent e query s =
     (let s0 = (if execution_agent s \<noteq> None
                then s\<lparr>execution_agent := None, execution_agent_tool := None, current_tools := []\<rparr>
                else s);
          tr1 = snd (search_api_hub e query)
      in case fst (search_api_hub e query) of
           Inl ex \<Rightarrow> (Inl ex, s0, tr1)
         | Inr locator \<Rightarrow>
             if \<not> truthy locator then (Inr (no_api_found query), s0, tr1)
             else
               (let made = create_toolset_from_apihub e locator
                             ''discovered-api'' (''API discovered for: '' @ query)
                in case fst made of
                     None \<Rightarrow> (Inr (spec_malformed query locator), s0, tr1 @ snd made)
                   | Some toolset \<Rightarrow>
                      (case toolset_get_tools e toolset of
                         Inl ex \<Rightarrow> (Inl ex, s0, tr1 @ snd made @ [GetTools locator])
                       | Inr tools \<Rightarrow>
                          (let agent = new_execution_agent query
                                 (toolset\<lparr>ts_tools := configure_tools (get_auth_credential e) tools\<rparr>)
                                 (map tool_name tools)
                           in (Inr (agent_created (map tool_name tools)),
                               \<lparr>execution_agent = Some agent,
                                execution_agent_tool = Some (AgentTool agent),
                                current_tools = map tool_name tools\<rparr>,
                               tr1 @ snd made @ [GetTools locator])))))"
  by (simp add: discover_and_create_agent_def Let_def split: prod.splits sum.splits option.splits)

lemma agent_created_success: "map_of (agent_created ns) ''success'' = Some (PBool True)"
  by (simp add: agent_created_def)

lemma no_api_found_success: "map_of (no_api_found q) ''success'' = Some (PBool False)"
  by (simp add: no_api_found_def)

lemma spec_malformed_success: "map_of (spec_malformed q l) ''success'' = Some (PBool False)"
  by (simp add: spec_malformed_def)

lemma discover_success_inv:
  assumes "fst (discover_and_create_agent e query s) = Inr r"
    and "map_of r ''success'' = Some (PBool True)"
  shows "\<exists>locator toolset tools.
           fst (search_api_hub e query) = Inr locator \<and> truthy locator
         \<and> fst (create_toolset_from_apihub e locator ''discovered-api'' (''API discovered for: '' @ query)) = Some toolset
         \<and> toolset_get_tools e toolset = Inr tools"
  using assms
  by (auto simp: discover_unfold Let_def no_api_found_success spec_malformed_success
           split: sum.splits option.splits if_splits)

lemma discover_failure_slot:
  assumes "fst (discover_and_create_agent e query s) = Inr r"
    and "map_of r ''success'' = Some (PBool False)"
  shows "fst (snd (discover_and_create_agent e query s)) =
           (if execution_agent s \<noteq> None
            then s\<lparr>execution_agent := None, execution_agent_tool := None, current_tools := []\<rparr>
            else s)"
  using assms
  by (auto simp: discover_unfold Let_def agent_created_success
           split: sum.splits option.splits if_splits)

lemma discover_preserves_inv:
  assumes "execution_agent s = None \<longrightarrow> execution_agent_tool s = None \<and> current_tools s = []"
  shows "execution_agent (fst (snd (discover_and_create_agent e query s))) = None \<longrightarrow>
           execution_agent_tool (fst (snd (discover_and_create_agent e query s))) = None
         \<and> current_tools (fst (snd (discover_and_create_agent e query s))) = []"
  using assms
  by (auto simp: discover_unfold Let_def split: sum.splits option.splits if_splits)

lemma reachable_inv:
  "reachable s \<Longrightarrow> execution_agent s = None \<longrightarrow> execution_agent_tool s = None \<and> current_tools s = []"
proof (induction rule: reachable.induct)
  case reachable_init
  show ?case by (simp add: empty_slot_def)
next
  case (reachable_reset s)
  show ?case by (simp add: reset_slot empty_slot_def)
next
  case (reachable_discover s e query)
  from reachable_discover.IH show ?case by (rule discover_preserves_inv)
qed

lemma call_trace:
  "execution_agent s = Some agent \<Longrightarrow>
     set (snd (call_execution_agent e request s)) \<subseteq> {RunnerSetup agent, RunAsync agent request}"
  by (auto simp: call_execution_agent_def Let_def split: option.splits sum.splits prod.splits)

lemma call_execution_agent_returns_dict: "\<exists>d. fst (call_execution_agent e request s) = Inr d"
  by (auto simp: call_execution_agent_def Let_def split: option.splits sum.splits prod.splits)

lemma configure_tools_nth:
  "i < length tools \<Longrightarrow>
     configure_tools (get_auth_credential e) tools ! i =
       (if get_apikey_credential e \<noteq> [] \<and> needs_auth (tools ! i)
        then (tools ! i)\<lparr>tool_auth_credential := Some \<lparr>auth_type = API_KEY, api_key = get_apikey_credential e\<rparr>\<rparr>
        else tools ! i)"
  by (simp add: configure_tools_def get_auth_credential_def Let_def configure_auth_credential_def)

lemma configure_tools_length: "length (configure_tools c tools) = length tools"
  by (simp add: configure_tools_def split: option.splits)

lemma example_discovery:
  "discover_and_create_agent example_env ''customer management'' s =
     (Inr (agent_created [''get_customer_by_id'', ''list_customers'']), customer_slot,
      [CredentialsRefresh, HttpPost ''https://hub.example/search'', CredentialsRefresh,
       ToolsetInit customer_spec, GetTools customer_spec])"
  by (simp add: discover_unfold customer_slot_eq search_api_hub_def get_apihub_search_url_def
      getenv_default_def example_env_def get_apihub_access_token_def
      search_response_spec_def customer_search_response_def py_get_def py_index0_def
      customer_spec_def create_toolset_from_apihub_def Let_def customer_tools_def
      get_auth_credential_def get_apikey_credential_def)

lemma no_match_discovery:
  "discover_and_create_agent no_match_env ''teleportation'' customer_slot =
     (Inr (no_api_found ''teleportation''), empty_slot,
      [CredentialsRefresh, HttpPost ''https://hub.example/search''])"
  by (simp add: discover_unfold customer_slot_eq search_api_hub_def get_apihub_search_url_def
      getenv_default_def example_env_def no_match_env_def get_apihub_access_token_def
      search_response_spec_def py_get_def Let_def empty_slot_def)

lemma example_toolset:
  "create_toolset_from_apihub example_env customer_spec ''discovered-api'' d =
     (Some \<lparr>ts_name = ''discovered-api'', ts_description = d, ts_access_token = ''token-1'',
            ts_apihub_resource_name = customer_spec, ts_tools = []\<rparr>,
      [CredentialsRefresh, ToolsetInit customer_spec])"
  by (simp add: create_toolset_from_apihub_def example_env_def get_apihub_access_token_def Let_def)

lemma order_discovery:
  "discover_and_create_agent order_env ''orders'' s =
     (Inr (agent_created [''get_order_by_id'']),
      (let toolset = \<lparr>ts_name = ''discovered-api'', ts_description = ''API discovered for: orders'',
                       ts_access_token = ''token-1'', ts_apihub_resource_name = customer_spec,
                       ts_tools = order_tools\<rparr>;
           agent = new_execution_agent ''orders'' toolset [''get_order_by_id'']
       in \<lparr>execution_agent = Some agent, execution_agent_tool = Some (AgentTool agent),
           current_tools = [''get_order_by_id'']\<rparr>),
      [CredentialsRefresh, HttpPost ''https://hub.example/search'', CredentialsRefresh,
       ToolsetInit customer_spec, GetTools customer_spec])"
  by (simp add: discover_unfold search_api_hub_def get_apihub_search_url_def
      getenv_default_def example_env_def order_env_def get_apihub_access_token_def
      search_response_spec_def customer_search_response_def py_get_def py_index0_def
      customer_spec_def create_toolset_from_apihub_def Let_def order_tools_def
      get_auth_credential_def get_apikey_credential_def configure_tools_def)

section \<open>The lifecycle of the slot\<close>

text \<open>
  C6. Resetting an empty slot changes nothing, succeeds and reports an empty list of
  previous tools; and whatever the slot holds at the start, the second of two consecutive
  resets returns \<open>success: True\<close> with \<open>previous_tools\<close> equal to \<open>[]\<close>.
\<close>

theorem reset_twice_reports_empty:
  "reset_execution_agent (snd (reset_execution_agent s)) =
     ([(''success'', PBool True),
       (''message'', PStr ''Execution agent destroyed. Call discover_and_create_agent with a new query.''),
       (''previous_tools'', PList [])], empty_slot)
   \<and> reset_execution_agent empty_slot =
     ([(''success'', PBool True),
       (''message'', PStr ''Execution agent destroyed. Call discover_and_create_agent with a new query.''),
       (''previous_tools'', PList [])], empty_slot)"
  by (simp add: reset_execution_agent_def empty_slot_def Let_def py_names_def)

text \<open>
  C5. When the slot holds no execution agent, \<open>call_execution_agent\<close> returns the dict
  \<open>{"error": "No execution agent created. Call discover_and_create_agent first."}\<close> and
  makes no external call: the trace of calls is empty, whatever the environment.
\<close>

theorem call_without_agent:
  assumes "execution_agent s = None"
  shows "call_execution_agent e request s =
           (Inr [(''error'', PStr ''No execution agent created. Call discover_and_create_agent first.'')], [])"
  using assms by (simp add: call_execution_agent_def no_agent_error_def)

theorem call_without_agent_witness:
  "execution_agent empty_slot = None \<and>
   call_execution_agent example_env ''get customer 123'' empty_slot =
     (Inr [(''error'', PStr ''No execution agent created. Call discover_and_create_agent first.'')], [])"
  using call_without_agent [of empty_slot example_env "''get customer 123''"]
  by (simp add: empty_slot_def)

section \<open>Classifying the delegate's answer\<close>

text \<open>
  C2. With an agent installed and a run that completes, \<open>call_execution_agent\<close> returns
  the negative result (\<open>success: False\<close>, \<open>tool_not_found: True\<close>, carrying the answer and
  the current tool names) exactly when the collected answer contains \<open>TOOL_NOT_FOUND\<close> as
  a substring, at any position; otherwise it returns the successful result. The answer
  \<open>Sorry, TOOL_NOT_FOUND: need a shipping API\<close> is classified as negative.
\<close>

theorem sentinel_is_substring_test:
  assumes "execution_agent s = Some agent"
    and "runner_setup e agent = None"
    and "run_async e agent request = (events, None)"
    and "collect_events None events = Inr final_response"
  shows "fst (call_execution_agent e request s) =
           (if \<exists>t ps ss. final_response = Some t \<and> t = ps @ ''TOOL_NOT_FOUND'' @ ss
            then Inr [(''success'', PBool False),
                      (''tool_not_found'', PBool True),
                      (''message'', PStr (the final_response)),
                      (''current_tools'', PList (map PStr (current_tools s))),
                      (''instruction'', PStr ''Call discover_and_create_agent with a DIFFERENT query.'')]
            else Inr [(''success'', PBool True),
                      (''result'', (case final_response of None \<Rightarrow> PNone | Some t \<Rightarrow> PStr t))])"
proof (cases final_response)
  case None
  with assms show ?thesis
    by (simp add: call_execution_agent_def classify_response_def execution_result_def py_opt_str_def)
next
  case (Some t)
  have nonempty: "str_contains ''TOOL_NOT_FOUND'' t \<Longrightarrow> t \<noteq> []"
    by (cases t) simp_all
  have "fst (call_execution_agent e request s) = Inr (classify_response (Some t) (current_tools s))"
    using assms Some by (simp add: call_execution_agent_def)
  also have "\<dots> = (if str_contains ''TOOL_NOT_FOUND'' t
                    then Inr (tool_not_found t (current_tools s))
                    else Inr (execution_result (Some t)))"
    using nonempty by (auto simp: classify_response_def)
  finally show ?thesis
    using Some
    by (simp add: str_contains_iff tool_not_found_def execution_result_def py_opt_str_def py_names_def)
qed

theorem sentinel_is_substring_test_witness:
  "(\<exists>agent events. execution_agent customer_slot = Some agent
      \<and> runner_setup example_env agent = None
      \<and> run_async example_env agent ''ship order 456'' = (events, None)
      \<and> collect_events None events = Inr (Some ''Sorry, TOOL_NOT_FOUND: need a shipping API''))
   \<and> fst (call_execution_agent example_env ''ship order 456'' customer_slot) =
       Inr [(''success'', PBool False),
            (''tool_not_found'', PBool True),
            (''message'', PStr ''Sorry, TOOL_NOT_FOUND: need a shipping API''),
            (''current_tools'', PList [PStr ''get_customer_by_id'', PStr ''list_customers'']),
            (''instruction'', PStr ''Call discover_and_create_agent with a DIFFERENT query.'')]"
proof -
  let ?agent = "the (execution_agent customer_slot)"
  let ?events = "fst (run_async example_env ?agent ''ship order 456'')"
  let ?t = "''Sorry, TOOL_NOT_FOUND: need a shipping API''"
  have a: "execution_agent customer_slot = Some ?agent"
    by (simp add: customer_slot_eq Let_def)
  have b: "runner_setup example_env ?agent = None"
    by (simp add: example_env_def)
  have c: "run_async example_env ?agent ''ship order 456'' = (?events, None)"
    by (simp add: example_env_def)
  have d: "collect_events None ?events = Inr (Some ?t)"
    by (simp add: example_env_def text_event_def)
  have "?t = ''Sorry, '' @ ''TOOL_NOT_FOUND'' @ '': need a shipping API''"
    by simp
  then have occ: "\<exists>t ps ss. Some ?t = Some t \<and> t = ps @ ''TOOL_NOT_FOUND'' @ ss"
    by blast
  have tools: "current_tools customer_slot = [''get_customer_by_id'', ''list_customers'']"
    by (simp add: customer_slot_eq Let_def customer_tools_def)
  have "fst (call_execution_agent example_env ''ship order 456'' customer_slot) =
       Inr [(''success'', PBool False),
            (''tool_not_found'', PBool True),
            (''message'', PStr ?t),
            (''current_tools'', PList [PStr ''get_customer_by_id'', PStr ''list_customers'']),
            (''instruction'', PStr ''Call discover_and_create_agent with a DIFFERENT query.'')]"
    using sentinel_is_substring_test [OF a b c d] occ tools by simp
  with a b c d show ?thesis by blast
qed

text \<open>
  C10. With an agent installed, a run that completes without any text (the collected
  answer is \<open>None\<close>) is reported as \<open>{"success": True, "result": None}\<close>.
\<close>

theorem empty_output_is_success:
  assumes "execution_agent s = Some agent"
    and "runner_setup e agent = None"
    and "run_async e agent request = (events, None)"
    and "collect_events None events = Inr None"
  shows "fst (call_execution_agent e request s) = Inr [(''success'', PBool True), (''result'', PNone)]"
  using assms
  by (simp add: call_execution_agent_def classify_response_def execution_result_def py_opt_str_def)

theorem empty_output_is_success_witness:
  "(\<exists>agent events. execution_agent customer_slot = Some agent
      \<and> runner_setup silent_env agent = None
      \<and> run_async silent_env agent ''get order 456'' = (events, None)
      \<and> collect_events None events = Inr None)
   \<and> fst (call_execution_agent silent_env ''get order 456'' customer_slot)
       = Inr [(''success'', PBool True), (''result'', PNone)]"
proof -
  let ?agent = "the (execution_agent customer_slot)"
  let ?events = "fst (run_async silent_env ?agent ''get order 456'')"
  have a: "execution_agent customer_slot = Some ?agent"
    by (simp add: customer_slot_eq Let_def)
  have b: "runner_setup silent_env ?agent = None"
    by (simp add: silent_env_def example_env_def)
  have c: "run_async silent_env ?agent ''get order 456'' = (?events, None)"
    by (simp add: silent_env_def example_env_def)
  have d: "collect_events None ?events = Inr None"
    by (simp add: silent_env_def example_env_def)
  from empty_output_is_success [OF a b c d] a b c d show ?thesis by blast
qed

section \<open>Search and materialization failures\<close>

text \<open>
  C7. When the search returned a locator and constructing the toolset from it fails
  (\<open>create_toolset_from_apihub\<close> returns \<open>None\<close>), \<open>discover_and_create_agent\<close> returns
  \<open>success: False\<close> with the message that the spec may be malformed and a \<open>spec\<close> field
  holding that locator. The result differs from the one for an empty search, which has no
  \<open>spec\<close> field, and it carries no \<open>tools\<close> field: it is never a success with an empty
  set of operations.
\<close>

theorem malformed_spec_reported:
  assumes "fst (search_api_hub e query) = Inr locator"
    and "truthy locator"
    and "fst (create_toolset_from_apihub e locator ''discovered-api'' (''API discovered for: '' @ query)) = None"
  shows "fst (discover_and_create_agent e query s) =
           Inr [(''success'', PBool False),
                (''message'', PStr (''Failed to parse API spec for: '' @ query @ ''. The spec may be malformed.'')),
                (''spec'', locator)]
         \<and> result_field (fst (discover_and_create_agent e query s)) ''spec'' = Some locator
         \<and> result_field (Inr (no_api_found query)) ''spec'' = None
         \<and> result_field (fst (discover_and_create_agent e query s)) ''success'' = Some (PBool False)
         \<and> result_field (fst (discover_and_create_agent e query s)) ''tools'' = None"
proof -
  obtain tr1 where s1: "search_api_hub e query = (Inr locator, tr1)"
    using assms(1) by (cases "search_api_hub e query") simp
  obtain tr2 where s2: "create_toolset_from_apihub e locator ''discovered-api'' (''API discovered for: '' @ query) = (None, tr2)"
    using assms(3) by (cases "create_toolset_from_apihub e locator ''discovered-api'' (''API discovered for: '' @ query)") simp
  have "fst (discover_and_create_agent e query s) = Inr (spec_malformed query locator)"
    using s1 s2 assms(2) by (simp add: discover_and_create_agent_def Let_def)
  then show ?thesis
    by (simp add: spec_malformed_def result_field_def no_api_found_def)
qed

theorem malformed_spec_reported_witness:
  "fst (search_api_hub bad_spec_env ''customer management'') = Inr customer_spec
   \<and> truthy customer_spec
   \<and> fst (create_toolset_from_apihub bad_spec_env customer_spec ''discovered-api''
            (''API discovered for: '' @ ''customer management'')) = None
   \<and> fst (discover_and_create_agent bad_spec_env ''customer management'' customer_slot) =
           Inr [(''success'', PBool False),
                (''message'', PStr ''Failed to parse API spec for: customer management. The spec may be malformed.''),
                (''spec'', customer_spec)]"
proof -
  have a: "fst (search_api_hub bad_spec_env ''customer management'') = Inr customer_spec"
    by (simp add: search_api_hub_def get_apihub_search_url_def getenv_default_def example_env_def
      bad_spec_env_def get_apihub_access_token_def search_response_spec_def customer_search_response_def
      py_get_def py_index0_def customer_spec_def Let_def)
  have b: "truthy customer_spec"
    by (simp add: customer_spec_def)
  have c: "fst (create_toolset_from_apihub bad_spec_env customer_spec ''discovered-api''
            (''API discovered for: '' @ ''customer management'')) = None"
    by (simp add: create_toolset_from_apihub_def bad_spec_env_def example_env_def
        get_apihub_access_token_def Let_def)
  from malformed_spec_reported [OF a b c, of customer_slot] a b c show ?thesis by simp
qed

text \<open>
  C8. \<open>search_api_hub\<close> returns \<open>None\<close>, and does not raise, when the search URL is not
  configured, when no access token is obtained, when the catalog answers with no results
  (the \<open>searchResults\<close> field is absent or empty), and when the request fails in the
  transport (a \<open>RequestException\<close> from the post, the status check or the decoding). The
  caller sees the same value in all four cases.
\<close>

theorem search_returns_none:
  assumes "get_apihub_search_url e = []
         \<or> fst (get_apihub_access_token e) = []
         \<or> (\<exists>kvs. requests_post e (get_apihub_search_url e)
                    (search_headers (fst (get_apihub_access_token e))) (search_payload query) = Inr (PDict kvs)
                 \<and> (map_of kvs ''searchResults'' = None \<or> map_of kvs ''searchResults'' = Some (PList [])))
         \<or> (\<exists>msg. requests_post e (get_apihub_search_url e)
                    (search_headers (fst (get_apihub_access_token e))) (search_payload query)
                  = Inl (Exn RequestException msg))"
  shows "fst (search_api_hub e query) = Inr PNone"
proof -
  obtain token tr where t: "get_apihub_access_token e = (token, tr)"
    by (cases "get_apihub_access_token e")
  show ?thesis
    using assms t
    by (auto simp: search_api_hub_def Let_def search_response_spec_def py_get_def
             split: sum.splits)
qed

theorem search_returns_none_witness:
  "get_apihub_search_url no_url_env = []
   \<and> fst (search_api_hub no_url_env ''customer management'') = Inr PNone
   \<and> fst (get_apihub_access_token no_token_env) = []
   \<and> fst (search_api_hub no_token_env ''customer management'') = Inr PNone
   \<and> requests_post no_match_env (get_apihub_search_url no_match_env)
        (search_headers (fst (get_apihub_access_token no_match_env))) (search_payload ''teleportation'')
        = Inr (PDict [(''searchResults'', PList [])])
   \<and> fst (search_api_hub no_match_env ''teleportation'') = Inr PNone
   \<and> requests_post transport_down_env (get_apihub_search_url transport_down_env)
        (search_headers (fst (get_apihub_access_token transport_down_env))) (search_payload ''customer management'')
        = Inl (Exn RequestException ''connection refused'')
   \<and> fst (search_api_hub transport_down_env ''customer management'') = Inr PNone"
proof -
  have a: "get_apihub_search_url no_url_env = []"
    by (simp add: get_apihub_search_url_def getenv_default_def no_url_env_def example_env_def)
  have b: "fst (get_apihub_access_token no_token_env) = []"
    by (simp add: get_apihub_access_token_def getenv_default_def no_token_env_def example_env_def Let_def)
  have c: "requests_post no_match_env (get_apihub_search_url no_match_env)
        (search_headers (fst (get_apihub_access_token no_match_env))) (search_payload ''teleportation'')
        = Inr (PDict [(''searchResults'', PList [])])"
    by (simp add: no_match_env_def example_env_def)
  have d: "requests_post transport_down_env (get_apihub_search_url transport_down_env)
        (search_headers (fst (get_apihub_access_token transport_down_env))) (search_payload ''customer management'')
        = Inl (Exn RequestException ''connection refused'')"
    by (simp add: transport_down_env_def example_env_def)
  have c': "\<exists>kvs. requests_post no_match_env (get_apihub_search_url no_match_env)
        (search_headers (fst (get_apihub_access_token no_match_env))) (search_payload ''teleportation'') = Inr (PDict kvs)
        \<and> (map_of kvs ''searchResults'' = None \<or> map_of kvs ''searchResults'' = Some (PList []))"
    using c by simp
  have d': "\<exists>msg. requests_post transport_down_env (get_apihub_search_url transport_down_env)
        (search_headers (fst (get_apihub_access_token transport_down_env))) (search_payload ''customer management'')
        = Inl (Exn RequestException msg)"
    using d by simp
  have "fst (search_api_hub no_url_env ''customer management'') = Inr PNone"
    using search_returns_none [of no_url_env "''customer management''"] a by blast
  moreover have "fst (search_api_hub no_token_env ''customer management'') = Inr PNone"
    using search_returns_none [of no_token_env "''customer management''"] b by blast
  moreover have "fst (search_api_hub no_match_env ''teleportation'') = Inr PNone"
    using search_returns_none [of no_match_env "''teleportation''"] c' by blast
  moreover have "fst (search_api_hub transport_down_env ''customer management'') = Inr PNone"
    using search_returns_none [of transport_down_env "''customer management''"] d' by blast
  ultimately show ?thesis using a b c d by blast
qed

section \<open>Discovery and the slot\<close>

text \<open>
  C1. In every slot the module can reach, a call of \<open>discover_and_create_agent\<close> that
  returns \<open>success: False\<close> (no locator from the search, or the toolset could not be
  constructed) leaves the slot empty: \<open>_execution_agent\<close> and \<open>_execution_agent_tool\<close>
  are \<open>None\<close> and \<open>_current_tools\<close> is \<open>[]\<close>, whether or not an agent was installed before
  the call.
\<close>

theorem failed_discovery_empties_slot:
  assumes "reachable s"
    and "fst (discover_and_create_agent e query s) = Inr r"
    and "map_of r ''success'' = Some (PBool False)"
  shows "fst (snd (discover_and_create_agent e query s)) = empty_slot"
proof (cases "execution_agent s")
  case None
  with reachable_inv [OF assms(1)] have "s = empty_slot"
    by (simp add: empty_slot_def)
  with discover_failure_slot [OF assms(2,3)] show ?thesis
    by (simp add: empty_slot_def)
next
  case (Some a)
  with discover_failure_slot [OF assms(2,3)] show ?thesis
    by (simp add: empty_slot_def)
qed

theorem failed_discovery_empties_slot_witness:
  "reachable customer_slot
   \<and> execution_agent customer_slot \<noteq> None
   \<and> fst (discover_and_create_agent no_match_env ''teleportation'' customer_slot)
       = Inr (no_api_found ''teleportation'')
   \<and> map_of (no_api_found ''teleportation'') ''success'' = Some (PBool False)
   \<and> fst (snd (discover_and_create_agent no_match_env ''teleportation'' customer_slot)) = empty_slot"
proof -
  have a: "reachable customer_slot"
    unfolding customer_slot_def by (rule reachable_discover) (rule reachable_init)
  have b: "fst (discover_and_create_agent no_match_env ''teleportation'' customer_slot)
             = Inr (no_api_found ''teleportation'')"
    by (simp add: no_match_discovery)
  have c: "map_of (no_api_found ''teleportation'') ''success'' = Some (PBool False)"
    by (simp add: no_api_found_def)
  have d: "execution_agent customer_slot \<noteq> None"
    by (simp add: customer_slot_eq Let_def)
  from failed_discovery_empties_slot [OF a b c] a b c d show ?thesis by blast
qed

text \<open>
  C4. After two consecutive successful discoveries the slot holds exactly what the second
  one built: the agent made from the second query, its toolset and its tool names, the
  wrapper around that agent, and those tool names as \<open>_current_tools\<close>. The slot is the
  one the second discovery would have produced from an empty slot, so nothing of the first
  discovery remains, and \<open>call_execution_agent\<close> hands only this agent to the runner.
\<close>

theorem replacement_is_total:
  assumes "discover_and_create_agent e1 q1 s0 = (Inr r1, s1, tr1)"
    and "map_of r1 ''success'' = Some (PBool True)"
    and "discover_and_create_agent e2 q2 s1 = (Inr r2, s2, tr2)"
    and "map_of r2 ''success'' = Some (PBool True)"
  shows "\<exists>locator toolset tools agent.
           fst (search_api_hub e2 q2) = Inr locator
         \<and> fst (create_toolset_from_apihub e2 locator ''discovered-api'' (''API discovered for: '' @ q2))
             = Some toolset
         \<and> toolset_get_tools e2 toolset = Inr tools
         \<and> agent = new_execution_agent q2
                     (toolset\<lparr>ts_tools := configure_tools (get_auth_credential e2) tools\<rparr>)
                     (map tool_name tools)
         \<and> s2 = \<lparr>execution_agent = Some agent, execution_agent_tool = Some (AgentTool agent),
                  current_tools = map tool_name tools\<rparr>
         \<and> s2 = fst (snd (discover_and_create_agent e2 q2 empty_slot))
         \<and> (\<forall>e3 request. set (snd (call_execution_agent e3 request s2))
                             \<subseteq> {RunnerSetup agent, RunAsync agent request})"
proof -
  have "fst (discover_and_create_agent e2 q2 s1) = Inr r2"
    using assms(3) by simp
  from discover_success_inv [OF this assms(4)]
  obtain locator toolset tools where
    h: "fst (search_api_hub e2 q2) = Inr locator" "truthy locator"
       "fst (create_toolset_from_apihub e2 locator ''discovered-api'' (''API discovered for: '' @ q2))
          = Some toolset"
       "toolset_get_tools e2 toolset = Inr tools"
    by blast
  let ?agent = "new_execution_agent q2
                  (toolset\<lparr>ts_tools := configure_tools (get_auth_credential e2) tools\<rparr>)
                  (map tool_name tools)"
  have any: "fst (snd (discover_and_create_agent e2 q2 s)) =
               \<lparr>execution_agent = Some ?agent, execution_agent_tool = Some (AgentTool ?agent),
                current_tools = map tool_name tools\<rparr>" for s
    using h by (simp add: discover_unfold Let_def)
  have s2: "s2 = \<lparr>execution_agent = Some ?agent, execution_agent_tool = Some (AgentTool ?agent),
                  current_tools = map tool_name tools\<rparr>"
    using any [of s1] assms(3) by simp
  have same: "s2 = fst (snd (discover_and_create_agent e2 q2 empty_slot))"
    using s2 any [of empty_slot] by simp
  have "execution_agent s2 = Some ?agent"
    using s2 by simp
  then have tr: "\<forall>e3 request. set (snd (call_execution_agent e3 request s2))
                             \<subseteq> {RunnerSetup ?agent, RunAsync ?agent request}"
    using call_trace by blast
  from h(1,3,4) s2 same tr show ?thesis by blast
qed

theorem replacement_is_total_witness:
  "\<exists>r1 tr1 r2 s2 tr2.
      discover_and_create_agent example_env ''customer management'' empty_slot = (Inr r1, customer_slot, tr1)
    \<and> map_of r1 ''success'' = Some (PBool True)
    \<and> current_tools customer_slot = [''get_customer_by_id'', ''list_customers'']
    \<and> discover_and_create_agent order_env ''orders'' customer_slot = (Inr r2, s2, tr2)
    \<and> map_of r2 ''success'' = Some (PBool True)
    \<and> current_tools s2 = [''get_order_by_id'']
    \<and> s2 = fst (snd (discover_and_create_agent order_env ''orders'' empty_slot))
    \<and> (\<exists>agent. execution_agent s2 = Some agent
           \<and> execution_agent_tool s2 = Some (AgentTool agent)
           \<and> agent_instruction agent = execution_instruction [''get_order_by_id'']
           \<and> set (snd (call_execution_agent example_env ''get order 456'' s2))
                \<subseteq> {RunnerSetup agent, RunAsync agent ''get order 456''})"
proof -
  let ?r1 = "agent_created [''get_customer_by_id'', ''list_customers'']"
  let ?tr1 = "[CredentialsRefresh, HttpPost ''https://hub.example/search'', CredentialsRefresh,
       ToolsetInit customer_spec, GetTools customer_spec]"
  let ?r2 = "agent_created [''get_order_by_id'']"
  let ?s2 = "fst (snd (discover_and_create_agent order_env ''orders'' customer_slot))"
  have a: "discover_and_create_agent example_env ''customer management'' empty_slot
             = (Inr ?r1, customer_slot, ?tr1)"
    by (rule example_discovery)
  have b: "map_of ?r1 ''success'' = Some (PBool True)"
    by (rule agent_created_success)
  have c: "discover_and_create_agent order_env ''orders'' customer_slot = (Inr ?r2, ?s2, ?tr1)"
    by (simp add: order_discovery)
  have d: "map_of ?r2 ''success'' = Some (PBool True)"
    by (rule agent_created_success)
  have tools1: "current_tools customer_slot = [''get_customer_by_id'', ''list_customers'']"
    by (simp add: customer_slot_eq Let_def customer_tools_def)
  from replacement_is_total [OF a b c d]
  obtain locator toolset tools agent where
    r: "toolset_get_tools order_env toolset = Inr tools"
       "agent = new_execution_agent ''orders''
                     (toolset\<lparr>ts_tools := configure_tools (get_auth_credential order_env) tools\<rparr>)
                     (map tool_name tools)"
       "?s2 = \<lparr>execution_agent = Some agent, execution_agent_tool = Some (AgentTool agent),
                  current_tools = map tool_name tools\<rparr>"
       "?s2 = fst (snd (discover_and_create_agent order_env ''orders'' empty_slot))"
       "\<forall>e3 request. set (snd (call_execution_agent e3 request ?s2))
                             \<subseteq> {RunnerSetup agent, RunAsync agent request}"
    by blast
  from r(1) have tools: "tools = order_tools"
    by (simp add: order_env_def example_env_def)
  have names: "map tool_name tools = [''get_order_by_id'']"
    by (simp add: tools order_tools_def)
  have e: "current_tools ?s2 = [''get_order_by_id'']"
    using r(3) names by simp
  have f: "execution_agent ?s2 = Some agent \<and> execution_agent_tool ?s2 = Some (AgentTool agent)"
    using r(3) by simp
  have g: "agent_instruction agent = execution_instruction [''get_order_by_id'']"
    using r(2) names by (simp add: new_execution_agent_def)
  have h: "set (snd (call_execution_agent example_env ''get order 456'' ?s2))
                \<subseteq> {RunnerSetup agent, RunAsync agent ''get order 456''}"
    using r(5) by blast
  from a b c d tools1 e r(4) f g h show ?thesis by blast
qed

text \<open>
  C9. When discovery reaches the enumeration of tools, the agent it installs holds the
  enumerated tools in the same order, where a tool has the API-key credential attached
  exactly when a static key is configured and the tool has a truthy \<open>auth_scheme\<close>; every
  other tool is unchanged, and without a configured key all tools are unchanged. The
  credentials are in place in the slot when discovery returns, and a later
  \<open>call_execution_agent\<close> hands that same agent to the runner.
\<close>

theorem credentials_attached_at_materialization:
  assumes "fst (search_api_hub e query) = Inr locator"
    and "truthy locator"
    and "fst (create_toolset_from_apihub e locator ''discovered-api'' (''API discovered for: '' @ query)) = Some toolset"
    and "toolset_get_tools e toolset = Inr tools"
  shows "\<exists>agent toolset'.
           execution_agent (fst (snd (discover_and_create_agent e query s))) = Some agent
         \<and> agent_tools agent = [toolset']
         \<and> length (ts_tools toolset') = length tools
         \<and> (\<forall>i < length tools. ts_tools toolset' ! i =
               (if get_apikey_credential e \<noteq> [] \<and> needs_auth (tools ! i)
                then (tools ! i)\<lparr>tool_auth_credential :=
                        Some \<lparr>auth_type = API_KEY, api_key = get_apikey_credential e\<rparr>\<rparr>
                else tools ! i))
         \<and> (get_apikey_credential e = [] \<longrightarrow> ts_tools toolset' = tools)
         \<and> (\<forall>e' request.
               set (snd (call_execution_agent e' request (fst (snd (discover_and_create_agent e query s)))))
                 \<subseteq> {RunnerSetup agent, RunAsync agent request})"
proof -
  let ?tools' = "configure_tools (get_auth_credential e) tools"
  let ?toolset' = "toolset\<lparr>ts_tools := ?tools'\<rparr>"
  let ?agent = "new_execution_agent query ?toolset' (map tool_name tools)"
  let ?s' = "fst (snd (discover_and_create_agent e query s))"
  have slot: "?s' = \<lparr>execution_agent = Some ?agent, execution_agent_tool = Some (AgentTool ?agent),
                      current_tools = map tool_name tools\<rparr>"
    using assms by (simp add: discover_unfold Let_def)
  then have a: "execution_agent ?s' = Some ?agent" by simp
  have b: "agent_tools ?agent = [?toolset']"
    by (simp add: new_execution_agent_def)
  have c: "length (ts_tools ?toolset') = length tools"
    by (simp add: configure_tools_length)
  have d: "\<forall>i < length tools. ts_tools ?toolset' ! i =
               (if get_apikey_credential e \<noteq> [] \<and> needs_auth (tools ! i)
                then (tools ! i)\<lparr>tool_auth_credential :=
                        Some \<lparr>auth_type = API_KEY, api_key = get_apikey_credential e\<rparr>\<rparr>
                else tools ! i)"
    by (simp add: configure_tools_nth)
  have f: "get_apikey_credential e = [] \<longrightarrow> ts_tools ?toolset' = tools"
    by (simp add: configure_tools_def get_auth_credential_def)
  have g: "\<forall>e' request. set (snd (call_execution_agent e' request ?s'))
                 \<subseteq> {RunnerSetup ?agent, RunAsync ?agent request}"
    using call_trace [OF a] by blast
  from a b c d f g show ?thesis by blast
qed

theorem credentials_attached_at_materialization_witness:
  "fst (search_api_hub example_env ''customer management'') = Inr customer_spec
   \<and> truthy customer_spec
   \<and> (\<exists>toolset.
         fst (create_toolset_from_apihub example_env customer_spec ''discovered-api''
                (''API discovered for: '' @ ''customer management'')) = Some toolset
       \<and> toolset_get_tools example_env toolset = Inr customer_tools)
   \<and> get_apikey_credential example_env = ''k-123''
   \<and> needs_auth (customer_tools ! 0) \<and> \<not> needs_auth (customer_tools ! 1)
   \<and> (\<exists>agent toolset'.
         execution_agent (fst (snd (discover_and_create_agent example_env ''customer management'' empty_slot)))
           = Some agent
       \<and> agent_tools agent = [toolset']
       \<and> length (ts_tools toolset') = 2
       \<and> ts_tools toolset' ! 0 =
           (customer_tools ! 0)\<lparr>tool_auth_credential := Some \<lparr>auth_type = API_KEY, api_key = ''k-123''\<rparr>\<rparr>
       \<and> ts_tools toolset' ! 1 = customer_tools ! 1)"
proof -
  let ?ts = "fst (create_toolset_from_apihub example_env customer_spec ''discovered-api''
                (''API discovered for: '' @ ''customer management''))"
  have a: "fst (search_api_hub example_env ''customer management'') = Inr customer_spec"
    by (simp add: search_api_hub_def get_apihub_search_url_def getenv_default_def example_env_def
      get_apihub_access_token_def search_response_spec_def customer_search_response_def
      py_get_def py_index0_def customer_spec_def Let_def)
  have b: "truthy customer_spec"
    by (simp add: customer_spec_def)
  have c: "?ts = Some (the ?ts)"
    by (simp add: example_toolset)
  have d: "toolset_get_tools example_env (the ?ts) = Inr customer_tools"
    by (simp add: example_env_def)
  have k: "get_apikey_credential example_env = ''k-123''"
    by (simp add: get_apikey_credential_def getenv_default_def example_env_def)
  have n: "needs_auth (customer_tools ! 0) \<and> \<not> needs_auth (customer_tools ! 1)"
    by (simp add: customer_tools_def needs_auth_def)
  have l: "length customer_tools = 2"
    by (simp add: customer_tools_def)
  from credentials_attached_at_materialization [OF a b c d, of empty_slot]
  obtain agent toolset' where
    r: "execution_agent (fst (snd (discover_and_create_agent example_env ''customer management'' empty_slot)))
           = Some agent"
       "agent_tools agent = [toolset']"
       "length (ts_tools toolset') = length customer_tools"
       "\<forall>i < length customer_tools. ts_tools toolset' ! i =
               (if get_apikey_credential example_env \<noteq> [] \<and> needs_auth (customer_tools ! i)
                then (customer_tools ! i)\<lparr>tool_auth_credential :=
                        Some \<lparr>auth_type = API_KEY, api_key = get_apikey_credential example_env\<rparr>\<rparr>
                else customer_tools ! i)"
    by blast
  from r(4) l have i0: "ts_tools toolset' ! 0 =
               (if get_apikey_credential example_env \<noteq> [] \<and> needs_auth (customer_tools ! 0)
                then (customer_tools ! 0)\<lparr>tool_auth_credential :=
                        Some \<lparr>auth_type = API_KEY, api_key = get_apikey_credential example_env\<rparr>\<rparr>
                else customer_tools ! 0)"
    by simp
  from r(4) l have i1: "ts_tools toolset' ! 1 =
               (if get_apikey_credential example_env \<noteq> [] \<and> needs_auth (customer_tools ! 1)
                then (customer_tools ! 1)\<lparr>tool_auth_credential :=
                        Some \<lparr>auth_type = API_KEY, api_key = get_apikey_credential example_env\<rparr>\<rparr>
                else customer_tools ! 1)"
    by simp
  have t0: "ts_tools toolset' ! 0 =
           (customer_tools ! 0)\<lparr>tool_auth_credential := Some \<lparr>auth_type = API_KEY, api_key = ''k-123''\<rparr>\<rparr>"
    using i0 k n by simp
  have t1: "ts_tools toolset' ! 1 = customer_tools ! 1"
    using i1 n by simp
  have len: "length (ts_tools toolset') = 2"
    using r(3) l by simp
  from a b c d k n r(1,2) len t0 t1 show ?thesis by blast
qed

section \<open>Exceptions that leave an entry point\<close>

text \<open>
  C3. The specification asks that no entry point lets an exception reach its caller.
  \<open>call_execution_agent\<close> wraps its work in \<open>try ... except Exception\<close> and
  \<open>reset_execution_agent\<close> calls nothing that raises, but \<open>discover_and_create_agent\<close>
  calls \<open>toolset.get_tools()\<close> outside any handler, and \<open>search_api_hub\<close> catches
  \<open>RequestException\<close> only. Evaluated on a toolset whose enumeration raises, and on a
  search response whose \<open>resource\<close> is \<open>null\<close>, discovery ends with the exception instead
  of a result dict.
\<close>

theorem discover_propagates_exception:
  "fst (discover_and_create_agent enumeration_fails_env ''customer management'' empty_slot)
     = Inl (Exn OtherException ''spec could not be loaded'')
   \<and> fst (discover_and_create_agent null_resource_env ''customer management'' empty_slot)
     = Inl (Exn AttributeError (quoted ''NoneType'' @ '' object has no attribute '' @ quoted ''get''))"
  by (simp add: discover_unfold search_api_hub_def get_apihub_search_url_def
      getenv_default_def example_env_def enumeration_fails_env_def null_resource_env_def
      get_apihub_access_token_def search_response_spec_def customer_search_response_def
      py_get_def py_index0_def customer_spec_def create_toolset_from_apihub_def Let_def)

end
